theory Spec2Isabelle
  imports Complex_Main "HOL-Library.List_Lexorder" "HOL-Library.Char_ord"
begin

text \<open>
  A shallow embedding of the inventory application: the persistence module that
  \<open>App.tsx\<close> imports as \<open>./db\<close> (IndexedDB and localStorage), the entities of
  \<open>types.ts\<close>, and the handlers of \<open>App.tsx\<close> that load, sell, import, restore,
  reset and synchronise.  Stores and React state are passed explicitly; a handler is a
  function from the state before it to the state after it.  What a handler reads from its
  surroundings (the clock, the answer to a confirmation dialog, a failure of IndexedDB)
  is an argument.  Rendering, dialogs and the timers of the automatic synchronisation
  are left out.
\<close>

section \<open>JavaScript numbers\<close>

text \<open>
  A slot typed \<open>number\<close> in the TypeScript source holds, at run time, a double, and
  after \<open>JSON.parse\<close> it may hold \<open>null\<close> (the serialisation of \<open>NaN\<close> and of the
  infinities); TypeScript types are erased.  A double is a finite number, \<open>Infinity\<close>,
  \<open>-Infinity\<close> or \<open>NaN\<close>.  A finite double is modelled by the rational it denotes,
  and an arithmetic result beyond the range of the doubles is the infinity of its sign.
  The rounding of a result within the range to 53 bits, underflow and the sign of zero
  are not modelled.
\<close>

datatype jsnum = Num rat | PInf | NInf | NaN | Null

text \<open>
  Results from \<open>2^1024 - 2^970\<close> on are rounded to \<open>Infinity\<close>; the largest double is
  \<open>2^1024 - 2^971\<close>.
\<close>

definition overflow_bound :: rat where
  "overflow_bound = 2 ^ 1024 - 2 ^ 970"

definition overflow :: "rat \<Rightarrow> jsnum" where
  "overflow r =
     (if overflow_bound \<le> r then PInf else if r \<le> - overflow_bound then NInf else Num r)"

text \<open>
  The values of a double other than \<open>NaN\<close>, and \<open>ToNumber\<close>: \<open>None\<close> stands for
  \<open>NaN\<close>, and \<open>null\<close> converts to \<open>0\<close>.
\<close>

datatype ext = Fin rat | Pos | Neg

fun to_number :: "jsnum \<Rightarrow> ext option" where
  "to_number (Num r) = Some (Fin r)"
| "to_number PInf = Some Pos"
| "to_number NInf = Some Neg"
| "to_number NaN = None"
| "to_number Null = Some (Fin 0)"

text \<open>
  Addition, subtraction and multiplication of doubles other than \<open>NaN\<close>:
  \<open>Infinity - Infinity\<close> and \<open>Infinity * 0\<close> are \<open>NaN\<close>.
\<close>

fun ext_add :: "ext \<Rightarrow> ext \<Rightarrow> jsnum" where
  "ext_add (Fin x) (Fin y) = overflow (x + y)"
| "ext_add (Fin x) Pos = PInf"
| "ext_add (Fin x) Neg = NInf"
| "ext_add Pos (Fin y) = PInf"
| "ext_add Pos Pos = PInf"
| "ext_add Pos Neg = NaN"
| "ext_add Neg (Fin y) = NInf"
| "ext_add Neg Pos = NaN"
| "ext_add Neg Neg = NInf"

fun ext_neg :: "ext \<Rightarrow> ext" where
  "ext_neg (Fin y) = Fin (- y)"
| "ext_neg Pos = Neg"
| "ext_neg Neg = Pos"

definition ext_sub :: "ext \<Rightarrow> ext \<Rightarrow> jsnum" where
  "ext_sub x y = ext_add x (ext_neg y)"

definition signed_inf :: "bool \<Rightarrow> jsnum" where
  "signed_inf positive = (if positive then PInf else NInf)"

fun ext_mul :: "ext \<Rightarrow> ext \<Rightarrow> jsnum" where
  "ext_mul (Fin x) (Fin y) = overflow (x * y)"
| "ext_mul (Fin x) Pos = (if x = 0 then NaN else signed_inf (0 < x))"
| "ext_mul (Fin x) Neg = (if x = 0 then NaN else signed_inf (x < 0))"
| "ext_mul Pos (Fin y) = (if y = 0 then NaN else signed_inf (0 < y))"
| "ext_mul Neg (Fin y) = (if y = 0 then NaN else signed_inf (y < 0))"
| "ext_mul Pos Pos = PInf"
| "ext_mul Pos Neg = NInf"
| "ext_mul Neg Pos = NInf"
| "ext_mul Neg Neg = PInf"

fun ext_le :: "ext \<Rightarrow> ext \<Rightarrow> bool" where
  "ext_le (Fin x) (Fin y) = (x \<le> y)"
| "ext_le Neg y = True"
| "ext_le x Pos = True"
| "ext_le Pos y = False"
| "ext_le x Neg = False"

fun ext_lt :: "ext \<Rightarrow> ext \<Rightarrow> bool" where
  "ext_lt (Fin x) (Fin y) = (x < y)"
| "ext_lt Pos y = False"
| "ext_lt x Neg = False"
| "ext_lt Neg y = True"
| "ext_lt x Pos = True"

definition lift_arith :: "(ext \<Rightarrow> ext \<Rightarrow> jsnum) \<Rightarrow> jsnum \<Rightarrow> jsnum \<Rightarrow> jsnum" where
  "lift_arith f a b =
     (case to_number a of
        None \<Rightarrow> NaN
      | Some x \<Rightarrow> (case to_number b of None \<Rightarrow> NaN | Some y \<Rightarrow> f x y))"

definition js_add :: "jsnum \<Rightarrow> jsnum \<Rightarrow> jsnum" where
  "js_add = lift_arith ext_add"

definition js_sub :: "jsnum \<Rightarrow> jsnum \<Rightarrow> jsnum" where
  "js_sub = lift_arith ext_sub"

definition js_mul :: "jsnum \<Rightarrow> jsnum \<Rightarrow> jsnum" where
  "js_mul = lift_arith ext_mul"

text \<open>Comparisons with \<open>NaN\<close> are false.\<close>

definition js_le :: "jsnum \<Rightarrow> jsnum \<Rightarrow> bool" where
  "js_le a b =
     (case to_number a of
        None \<Rightarrow> False
      | Some x \<Rightarrow> (case to_number b of None \<Rightarrow> False | Some y \<Rightarrow> ext_le x y))"

definition js_lt :: "jsnum \<Rightarrow> jsnum \<Rightarrow> bool" where
  "js_lt a b =
     (case to_number a of
        None \<Rightarrow> False
      | Some x \<Rightarrow> (case to_number b of None \<Rightarrow> False | Some y \<Rightarrow> ext_lt x y))"

definition js_ge :: "jsnum \<Rightarrow> jsnum \<Rightarrow> bool" where
  "js_ge a b = js_le b a"

definition isNaN :: "jsnum \<Rightarrow> bool" where
  "isNaN a = (to_number a = None)"

text \<open>
  Truthiness of a number slot: \<open>0\<close>, \<open>NaN\<close> and \<open>null\<close> are falsy, the infinities
  are truthy.
\<close>

fun truthy :: "jsnum \<Rightarrow> bool" where
  "truthy (Num r) = (r \<noteq> 0)"
| "truthy PInf = True"
| "truthy NInf = True"
| "truthy NaN = False"
| "truthy Null = False"

text \<open>\<open>a || b\<close> on number slots.\<close>

definition js_or :: "jsnum \<Rightarrow> jsnum \<Rightarrow> jsnum" where
  "js_or a b = (if truthy a then a else b)"


section \<open>Entities (types.ts)\<close>

record category =
  cat_id :: string
  cat_name :: string
  cat_image :: string

record product =
  p_id :: string
  p_name :: string
  p_price :: string
  p_quantity :: jsnum
  p_categoryId :: string
  p_barcode :: string
  p_image :: string

record sale_record =
  s_id :: string
  s_productId :: string
  s_productName :: string
  s_productImage :: string
  s_quantity :: jsnum
  s_soldAtPrice :: jsnum
  s_timestamp :: jsnum

section \<open>The structured store (IndexedDB)\<close>

text \<open>
  An object store created with \<open>{ keyPath: 'id' }\<close> holds at most one record per key
  and hands its records out in ascending key order.  It is modelled by the list of its
  records in that order; the key path is the first argument of each operation.  Keys are
  compared as byte strings.
\<close>

type_synonym 'a ostore = "'a list"

definition os_put :: "('a \<Rightarrow> string) \<Rightarrow> 'a \<Rightarrow> 'a ostore \<Rightarrow> 'a ostore" where
  "os_put kp x os = insort_key kp x (filter (\<lambda>y. kp y \<noteq> kp x) os)"

definition os_delete :: "('a \<Rightarrow> string) \<Rightarrow> string \<Rightarrow> 'a ostore \<Rightarrow> 'a ostore" where
  "os_delete kp k os = filter (\<lambda>y. kp y \<noteq> k) os"

definition os_clear :: "'a ostore \<Rightarrow> 'a ostore" where
  "os_clear os = []"

definition os_getAll :: "'a ostore \<Rightarrow> 'a list" where
  "os_getAll os = os"

text \<open>\<open>xs.forEach(x => store.put(x))\<close>\<close>

definition os_put_all :: "('a \<Rightarrow> string) \<Rightarrow> 'a list \<Rightarrow> 'a ostore \<Rightarrow> 'a ostore" where
  "os_put_all kp xs os = foldl (\<lambda>acc x. os_put kp x acc) os xs"

text \<open>The well-formedness of an object store: strictly ascending keys.\<close>

definition os_wf :: "('a \<Rightarrow> string) \<Rightarrow> 'a ostore \<Rightarrow> bool" where
  "os_wf kp os = sorted_wrt (<) (map kp os)"


subsection \<open>Failures of the store\<close>

text \<open>
  What goes wrong in IndexedDB during one call of the persistence layer is an input of
  that call: \<open>indexedDB.open\<close> reports an error (\<open>OpenFails\<close>), one of the synchronous
  calls \<open>transaction\<close>, \<open>objectStore\<close>, \<open>put\<close>, \<open>delete\<close>, \<open>getAll\<close> throws
  (\<open>CallThrows\<close>), or the error event of the request or transaction fires
  (\<open>ErrorEvent\<close>).  A promise is modelled by its settled value: \<open>Inl\<close> a rejection,
  \<open>Inr\<close> the fulfilment.
\<close>

datatype idb_fault = NoFault | OpenFails | CallThrows | ErrorEvent

datatype error = OpenError | DOMException | RequestError | TypeError

definition openDB :: "idb_fault \<Rightarrow> error + unit" where
  "openDB f = (if f = OpenFails then Inl OpenError else Inr ())"

text \<open>
  \<open>getAll\<close>: only \<open>await openDB()\<close> runs inside the \<open>try\<close> block.  The promise made by
  \<open>return new Promise(...)\<close> is returned without \<open>await\<close>, so its rejection (an
  exception thrown inside the executor, or \<open>request.onerror\<close>) is not seen by the
  \<open>catch\<close> clause and reaches the caller.
\<close>

definition getAll :: "idb_fault \<Rightarrow> 'a ostore \<Rightarrow> error + 'a list" where
  "getAll f os =
     (case openDB f of
        Inl e \<Rightarrow> Inr []
      | Inr u \<Rightarrow>
          (if f = CallThrows then Inl DOMException
           else if f = ErrorEvent then Inl RequestError
           else Inr (os_getAll os)))"

text \<open>
  \<open>saveItem\<close>: \<open>await openDB()\<close>, \<open>transaction\<close>, \<open>objectStore\<close> and \<open>put\<close> run
  inside the \<open>try\<close> block, whose \<open>catch\<close> clause logs and does not rethrow; the
  returned promise rejects on \<open>transaction.onerror\<close>, and the aborted transaction leaves
  the store as it was.
\<close>

definition saveItem :: "('a \<Rightarrow> string) \<Rightarrow> idb_fault \<Rightarrow> 'a \<Rightarrow> 'a ostore \<Rightarrow> error + 'a ostore" where
  "saveItem kp f item os =
     (case openDB f of
        Inl e \<Rightarrow> Inr os
      | Inr u \<Rightarrow>
          (if f = CallThrows then Inr os
           else if f = ErrorEvent then Inl RequestError
           else Inr (os_put kp item os)))"

text \<open>\<open>deleteItem\<close>: the \<open>catch\<close> clause logs and rethrows.\<close>

definition deleteItem :: "('a \<Rightarrow> string) \<Rightarrow> idb_fault \<Rightarrow> string \<Rightarrow> 'a ostore \<Rightarrow> error + 'a ostore" where
  "deleteItem kp f k os =
     (case openDB f of
        Inl e \<Rightarrow> Inl e
      | Inr u \<Rightarrow>
          (if f = CallThrows then Inl DOMException
           else if f = ErrorEvent then Inl RequestError
           else Inr (os_delete kp k os)))"

record database =
  db_categories :: "category ostore"
  db_products :: "product ostore"
  db_sales :: "sale_record ostore"

section \<open>The scalar store (localStorage)\<close>

text \<open>
  Of localStorage the model keeps the entry \<open>NabilInventory_TOTAL_EARNINGS\<close> and the
  entries \<open>GLOBAL_CLOUD_DB_<email>\<close>; the entries for the user and the navigation state
  play no part below.  The earnings entry is the text that \<open>toString\<close> gives for a
  number, kept as that number (\<open>None\<close>: no entry): \<open>parseFloat\<close> reads a double back
  from its own text, \<open>Infinity\<close> and \<open>-Infinity\<close> included.  A cloud entry is JSON
  text, kept as the value that \<open>JSON.parse\<close> reads from it.
\<close>

record cloud_data =
  cd_categories :: "category list"
  cd_products :: "product list"
  cd_sales :: "sale_record list"
  cd_earnings :: jsnum
  cd_lastUpdated :: jsnum

record local_storage =
  ls_total_earnings :: "jsnum option"
  ls_cloud :: "string \<Rightarrow> cloud_data option"

text \<open>
  \<open>saveEarnings\<close>: \<open>safeAmount.toString()\<close> is a \<open>TypeError\<close> on \<open>null\<close>, for which
  \<open>isNaN\<close> is false.
\<close>

definition saveEarnings :: "jsnum \<Rightarrow> local_storage \<Rightarrow> error + local_storage" where
  "saveEarnings amount st =
     (let safeAmount = (if isNaN amount then Num 0 else amount) in
      case safeAmount of
        Null \<Rightarrow> Inl TypeError
      | _ \<Rightarrow> Inr (st\<lparr>ls_total_earnings := Some safeAmount\<rparr>))"

text \<open>
  \<open>getEarnings\<close>: the text of \<open>NaN\<close>, and the text \<open>null\<close>, which \<open>saveEarnings\<close>
  never writes, are parsed to \<open>NaN\<close>.
\<close>

definition getEarnings :: "local_storage \<Rightarrow> jsnum" where
  "getEarnings st =
     (case ls_total_earnings st of
        None \<Rightarrow> Num 0
      | Some v \<Rightarrow>
          (let parsed = (case v of Null \<Rightarrow> NaN | _ \<Rightarrow> v)
           in if isNaN parsed then Num 0 else parsed))"

subsection \<open>Snapshots\<close>

text \<open>\<open>String.prototype.toLowerCase\<close>, on the ASCII letters.\<close>

definition lower_char :: "char \<Rightarrow> char" where
  "lower_char c =
     (let n = (of_char c :: nat) in if 65 \<le> n \<and> n \<le> 90 then char_of (n + 32) else c)"

definition toLowerCase :: "string \<Rightarrow> string" where
  "toLowerCase s = map lower_char s"

definition cloudKey :: "string \<Rightarrow> string" where
  "cloudKey email = ''GLOBAL_CLOUD_DB_'' @ toLowerCase email"






definition fetchFromCloud :: "string \<Rightarrow> local_storage \<Rightarrow> cloud_data option" where
  "fetchFromCloud email st = ls_cloud st (cloudKey email)"

subsection \<open>The bulk overwrite\<close>

text \<open>
  \<open>overwriteLocalData\<close> opens the database outside any \<open>try\<close>, clears the three
  stores, queues a \<open>put\<close> for every record, calls \<open>saveEarnings\<close> and resolves on
  \<open>tx.oncomplete\<close>.  No handler rejects: when a \<open>clear\<close> fails, the promise awaited on
  it stays pending and nothing further runs; when a \<open>put\<close> fails, the transaction
  aborts after \<open>saveEarnings\<close> has run and the returned promise stays pending.  An
  exception of \<open>saveEarnings\<close> rejects the call while the transaction still commits.
\<close>

datatype overwrite_fault = OwNoFault | OwOpenFails | OwTransactionThrows | OwClearErrors | OwPutErrors

datatype settled = Fulfilled | Rejected error | Pending

definition replace_stores ::
  "category list \<Rightarrow> product list \<Rightarrow> sale_record list \<Rightarrow> database \<Rightarrow> database" where
  "replace_stores cats prods sls db =
     \<lparr>db_categories = os_put_all cat_id cats (os_clear (db_categories db)),
      db_products = os_put_all p_id prods (os_clear (db_products db)),
      db_sales = os_put_all s_id sls (os_clear (db_sales db))\<rparr>"

definition overwriteLocalData ::
  "overwrite_fault \<Rightarrow> category list \<Rightarrow> product list \<Rightarrow> jsnum \<Rightarrow> sale_record list
     \<Rightarrow> database \<times> local_storage \<Rightarrow> settled \<times> database \<times> local_storage" where
  "overwriteLocalData f cats prods earnings sls w =
     (case w of (db, st) \<Rightarrow>
        (case f of
           OwOpenFails \<Rightarrow> (Rejected OpenError, db, st)
         | OwTransactionThrows \<Rightarrow> (Rejected DOMException, db, st)
         | OwClearErrors \<Rightarrow> (Pending, db, st)
         | OwPutErrors \<Rightarrow>
             (case saveEarnings earnings st of
                Inl e \<Rightarrow> (Rejected e, db, st)
              | Inr st' \<Rightarrow> (Pending, db, st'))
         | OwNoFault \<Rightarrow>
             (case saveEarnings earnings st of
                Inl e \<Rightarrow> (Rejected e, replace_stores cats prods sls db, st)
              | Inr st' \<Rightarrow> (Fulfilled, replace_stores cats prods sls db, st'))))"


section \<open>The application state (App.tsx)\<close>

text \<open>
  The React state variables that hold business data and the signed-in user, together
  with the two stores they are persisted in.  A handler runs to its end on the state of
  the latest render; handlers do not interleave.
\<close>

record user =
  u_email :: string
  u_name :: string
  u_picture :: string

record app =
  categories :: "category list"
  products :: "product list"
  sales :: "sale_record list"
  totalEarnings :: jsnum
  user :: "user option"
  idb :: database
  ls :: local_storage

subsection \<open>loadData\<close>

text \<open>
  \<open>Array.prototype.sort\<close> is stable; \<open>a\<close> goes behind \<open>b\<close> when the comparator is
  positive on \<open>(a, b)\<close>, and a comparator value of \<open>NaN\<close> counts as \<open>0\<close>.
\<close>

fun insert_cmp :: "('a \<Rightarrow> 'a \<Rightarrow> jsnum) \<Rightarrow> 'a \<Rightarrow> 'a list \<Rightarrow> 'a list" where
  "insert_cmp cmp x [] = [x]"
| "insert_cmp cmp x (y # ys) =
     (if js_lt (Num 0) (cmp x y) then y # insert_cmp cmp x ys else x # y # ys)"

definition sort_cmp :: "('a \<Rightarrow> 'a \<Rightarrow> jsnum) \<Rightarrow> 'a list \<Rightarrow> 'a list" where
  "sort_cmp cmp xs = foldr (insert_cmp cmp) xs []"

definition by_timestamp_desc :: "sale_record \<Rightarrow> sale_record \<Rightarrow> jsnum" where
  "by_timestamp_desc a b = js_sub (s_timestamp b) (s_timestamp a)"

text \<open>
  The three reads run under \<open>Promise.all\<close>: when one of them rejects, the \<open>catch\<close>
  clause logs and no state variable is set.
\<close>

definition loadData :: "idb_fault \<Rightarrow> idb_fault \<Rightarrow> idb_fault \<Rightarrow> app \<Rightarrow> app" where
  "loadData fc fp fs a =
     (case getAll fc (db_categories (idb a)) of
        Inl e \<Rightarrow> a
      | Inr cats \<Rightarrow>
     (case getAll fp (db_products (idb a)) of
        Inl e \<Rightarrow> a
      | Inr prods \<Rightarrow>
     (case getAll fs (db_sales (idb a)) of
        Inl e \<Rightarrow> a
      | Inr salesLog \<Rightarrow>
          a\<lparr>categories := cats,
            products := prods,
            sales := sort_cmp by_timestamp_desc salesLog,
            totalEarnings := js_or (getEarnings (ls a)) (Num 0)\<rparr>)))"

subsection \<open>totalInventoryValue\<close>








subsection \<open>Adding and deleting\<close>

text \<open>
  \<open>prev.find(...)\<close> yields the record or \<open>undefined\<close>; a rejected \<open>await\<close> ends the
  handler before any state variable is set.
\<close>

definition handleAddCategory :: "idb_fault \<Rightarrow> category \<Rightarrow> app \<Rightarrow> app" where
  "handleAddCategory f cat a =
     (case saveItem cat_id f cat (db_categories (idb a)) of
        Inl e \<Rightarrow> a
      | Inr os \<Rightarrow>
          a\<lparr>idb := (idb a)\<lparr>db_categories := os\<rparr>,
            categories :=
              (case find (\<lambda>p. cat_id p = cat_id cat) (categories a) of
                 Some exists \<Rightarrow> map (\<lambda>p. if cat_id p = cat_id cat then cat else p) (categories a)
               | None \<Rightarrow> categories a @ [cat])\<rparr>)"

definition handleAddProduct :: "idb_fault \<Rightarrow> product \<Rightarrow> app \<Rightarrow> app" where
  "handleAddProduct f pr a =
     (case saveItem p_id f pr (db_products (idb a)) of
        Inl e \<Rightarrow> a
      | Inr os \<Rightarrow>
          a\<lparr>idb := (idb a)\<lparr>db_products := os\<rparr>,
            products :=
              (case find (\<lambda>p. p_id p = p_id pr) (products a) of
                 Some exists \<Rightarrow> map (\<lambda>p. if p_id p = p_id pr then pr else p) (products a)
               | None \<Rightarrow> products a @ [pr])\<rparr>)"

definition handleDeleteProduct :: "bool \<Rightarrow> idb_fault \<Rightarrow> string \<Rightarrow> app \<Rightarrow> app" where
  "handleDeleteProduct confirmed f k a =
     (if confirmed then
        (case deleteItem p_id f k (db_products (idb a)) of
           Inl e \<Rightarrow> a
         | Inr os \<Rightarrow>
             a\<lparr>idb := (idb a)\<lparr>db_products := os\<rparr>,
               products := filter (\<lambda>p. p_id p \<noteq> k) (products a)\<rparr>)
      else a)"

subsection \<open>handleSale\<close>

text \<open>\<open>Number.prototype.toString\<close> on a natural number, as \<open>Date.now()\<close> returns one.\<close>

definition digit_char :: "nat \<Rightarrow> char" where
  "digit_char d = ''0123456789'' ! d"

fun dec_string :: "nat \<Rightarrow> string" where
  "dec_string n =
     (if n < 10 then [digit_char n]
      else dec_string (n div 10) @ [digit_char (n mod 10)])"

declare dec_string.simps [simp del]

text \<open>
  One call of \<open>handleSale\<close> with what it reads from its surroundings: the two values
  of \<open>Date.now()\<close> (for the id and for the timestamp) and what goes wrong in its two
  accesses to the store.
\<close>

record sale_call =
  sc_productId :: string
  sc_quantityToSell :: jsnum
  sc_soldAtPrice :: jsnum
  sc_now_id :: nat
  sc_now_timestamp :: nat
  sc_fault_sale :: idb_fault
  sc_fault_product :: idb_fault

definition make_saleRecord :: "product \<Rightarrow> sale_call \<Rightarrow> sale_record" where
  "make_saleRecord product c =
     \<lparr>s_id = dec_string (sc_now_id c),
      s_productId = p_id product,
      s_productName = p_name product,
      s_productImage = p_image product,
      s_quantity = sc_quantityToSell c,
      s_soldAtPrice = sc_soldAtPrice c,
      s_timestamp = Num (of_nat (sc_now_timestamp c))\<rparr>"

text \<open>
  Every exception inside the handler reaches its \<open>catch\<close> clause, which reports and
  leaves the state variables as they are at that point.
\<close>

definition handleSale :: "sale_call \<Rightarrow> app \<Rightarrow> app" where
  "handleSale c a =
     (case find (\<lambda>p. p_id p = sc_productId c) (products a) of
        None \<Rightarrow> a
      | Some product \<Rightarrow>
          (let saleRecord = make_saleRecord product c in
           case saveItem s_id (sc_fault_sale c) saleRecord (db_sales (idb a)) of
             Inl e \<Rightarrow> a
           | Inr os_sales \<Rightarrow>
               (let a1 = a\<lparr>idb := (idb a)\<lparr>db_sales := os_sales\<rparr>\<rparr>;
                    saleAmount = js_mul (sc_soldAtPrice c) (sc_quantityToSell c);
                    currentEarnings = (if isNaN (totalEarnings a) then Num 0 else totalEarnings a);
                    newTotalEarnings = js_add currentEarnings saleAmount
                in case saveEarnings newTotalEarnings (ls a1) of
                     Inl e \<Rightarrow> a1
                   | Inr ls' \<Rightarrow>
                       (let a2 = a1\<lparr>ls := ls',
                                    totalEarnings := newTotalEarnings,
                                    sales := saleRecord # sales a1\<rparr>;
                            newQuantity = js_sub (p_quantity product) (sc_quantityToSell c)
                        in if js_le newQuantity (Num 0) then
                             (case deleteItem p_id (sc_fault_product c) (p_id product)
                                     (db_products (idb a2)) of
                                Inl e \<Rightarrow> a2
                              | Inr os \<Rightarrow>
                                  a2\<lparr>idb := (idb a2)\<lparr>db_products := os\<rparr>,
                                     products :=
                                       filter (\<lambda>p. p_id p \<noteq> p_id product) (products a2)\<rparr>)
                           else
                             (let updatedProduct = product\<lparr>p_quantity := newQuantity\<rparr> in
                              case saveItem p_id (sc_fault_product c) updatedProduct
                                     (db_products (idb a2)) of
                                Inl e \<Rightarrow> a2
                              | Inr os \<Rightarrow>
                                  a2\<lparr>idb := (idb a2)\<lparr>db_products := os\<rparr>,
                                     products :=
                                       map (\<lambda>p. if p_id p = p_id product then updatedProduct else p)
                                         (products a2)\<rparr>)))))"

text \<open>A sequence of sales, one after the other.\<close>

fun run_sales :: "sale_call list \<Rightarrow> app \<Rightarrow> app" where
  "run_sales [] a = a"
| "run_sales (c # cs) a = run_sales cs (handleSale c a)"


subsection \<open>Snapshots and restores\<close>


text \<open>
  \<open>handleLogin\<close>: \<open>confirmed\<close> is the answer to the dialog; \<open>loadData\<close> runs only
  after the overwrite has been fulfilled.
\<close>

definition handleLogin ::
  "user \<Rightarrow> bool \<Rightarrow> overwrite_fault \<Rightarrow> idb_fault \<Rightarrow> idb_fault \<Rightarrow> idb_fault \<Rightarrow> app \<Rightarrow> app" where
  "handleLogin newUser confirmed fo fc fp fs a =
     (let a0 = a\<lparr>user := Some newUser\<rparr> in
      case fetchFromCloud (u_email newUser) (ls a0) of
        None \<Rightarrow> a0
      | Some cloudData \<Rightarrow>
          (if confirmed then
             (case overwriteLocalData fo (cd_categories cloudData) (cd_products cloudData)
                     (js_or (cd_earnings cloudData) (Num 0)) (cd_sales cloudData)
                     (idb a0, ls a0) of
                (r, db', ls') \<Rightarrow>
                  (let a1 = a0\<lparr>idb := db', ls := ls'\<rparr>
                   in if r = Fulfilled then loadData fc fp fs a1 else a1))
           else a0))"

text \<open>
  The argument of \<open>handleImport\<close> is typed \<open>any\<close>: each field may be missing
  (\<open>None\<close>).
\<close>

record import_data =
  im_categories :: "category list option"
  im_products :: "product list option"
  im_sales :: "sale_record list option"
  im_earnings :: "jsnum option"
  im_totalEarnings :: "jsnum option"

definition or_list :: "'a list option \<Rightarrow> 'a list" where
  "or_list v = (case v of None \<Rightarrow> [] | Some xs \<Rightarrow> xs)"

definition or_num :: "jsnum option \<Rightarrow> jsnum \<Rightarrow> jsnum" where
  "or_num v d = (case v of None \<Rightarrow> d | Some x \<Rightarrow> js_or x d)"

definition handleImport :: "bool \<Rightarrow> overwrite_fault \<Rightarrow> import_data \<Rightarrow> app \<Rightarrow> app" where
  "handleImport confirmed fo data a =
     (if confirmed then
        (let newCategories = or_list (im_categories data);
             newProducts = or_list (im_products data);
             newSales = or_list (im_sales data);
             newEarnings = or_num (im_earnings data) (or_num (im_totalEarnings data) (Num 0))
         in case overwriteLocalData fo newCategories newProducts newEarnings newSales
                   (idb a, ls a) of
              (r, db', ls') \<Rightarrow>
                (let a1 = a\<lparr>idb := db', ls := ls'\<rparr>
                 in if r = Fulfilled then
                      a1\<lparr>categories := newCategories,
                         products := newProducts,
                         sales := newSales,
                         totalEarnings := newEarnings\<rparr>
                    else a1))
      else a)"

text \<open>
  \<open>resetEarnings\<close> does not wait for \<open>overwriteLocalData\<close>; what the overwrite does
  to the stores is taken to have happened when the handler is done.
\<close>

definition resetEarnings :: "bool \<Rightarrow> overwrite_fault \<Rightarrow> app \<Rightarrow> app" where
  "resetEarnings confirmed fo a =
     (if confirmed then
        (let a1 = a\<lparr>totalEarnings := Num 0, sales := []\<rparr> in
         case saveEarnings (Num 0) (ls a1) of
           Inl e \<Rightarrow> a1
         | Inr ls1 \<Rightarrow>
             (case overwriteLocalData fo (categories a) (products a) (Num 0) []
                     (idb a1, ls1) of
                (r, db', ls') \<Rightarrow> a1\<lparr>idb := db', ls := ls'\<rparr>))
      else a)"

section \<open>Notions of the specification\<close>









text \<open>
  The store holds the in-memory collection: the same records, one per id, in key order.
\<close>

definition store_agrees :: "('a \<Rightarrow> string) \<Rightarrow> 'a list \<Rightarrow> 'a ostore \<Rightarrow> bool" where
  "store_agrees kp mem os = (os_wf kp os \<and> distinct (map kp mem) \<and> set os = set mem)"




section \<open>Example data\<close>

text \<open>
  The scenario of the specification: an empty shop, and the product \<open>p1\<close>, a widget
  priced \<open>100/80\<close>, five in stock.
\<close>

definition empty_db :: database where
  "empty_db = \<lparr>db_categories = [], db_products = [], db_sales = []\<rparr>"

definition empty_ls :: local_storage where
  "empty_ls = \<lparr>ls_total_earnings = None, ls_cloud = (\<lambda>k. None)\<rparr>"

definition shop0 :: app where
  "shop0 = \<lparr>categories = [], products = [], sales = [], totalEarnings = Num 0, user = None,
            idb = empty_db, ls = empty_ls\<rparr>"

definition widget :: product where
  "widget = \<lparr>p_id = ''p1'', p_name = ''Widget'', p_price = ''100/80'', p_quantity = Num 5,
             p_categoryId = ''c1'', p_barcode = ''111'', p_image = []\<rparr>"

definition shop1 :: app where
  "shop1 = handleAddProduct NoFault widget shop0"

text \<open>A sale of \<open>p1\<close> at time \<open>t\<close> with a healthy store.\<close>

definition sell_widget :: "jsnum \<Rightarrow> jsnum \<Rightarrow> nat \<Rightarrow> sale_call" where
  "sell_widget q price t =
     \<lparr>sc_productId = ''p1'', sc_quantityToSell = q, sc_soldAtPrice = price,
      sc_now_id = t, sc_now_timestamp = t, sc_fault_sale = NoFault, sc_fault_product = NoFault\<rparr>"

text \<open>Two categories under one id, as an imported file may carry them.\<close>

definition cat_a :: category where
  "cat_a = \<lparr>cat_id = ''c1'', cat_name = ''A'', cat_image = []\<rparr>"

definition cat_b :: category where
  "cat_b = \<lparr>cat_id = ''c1'', cat_name = ''B'', cat_image = []\<rparr>"

definition twin_import :: import_data where
  "twin_import = \<lparr>im_categories = Some [cat_a, cat_b], im_products = None, im_sales = None,
                  im_earnings = None, im_totalEarnings = None\<rparr>"

section \<open>Evaluation rules\<close>

lemma overflow_bound_large: "1000000000 < overflow_bound"
  by (simp add: overflow_bound_def)

lemma overflow_small: "\<bar>r\<bar> \<le> 1000000000 \<Longrightarrow> overflow r = Num r"
  using overflow_bound_large by (auto simp: overflow_def)

lemmas js_arith =
  js_add_def js_sub_def js_mul_def lift_arith_def ext_sub_def signed_inf_def overflow_small
  js_le_def js_lt_def js_ge_def isNaN_def js_or_def

lemmas store_ops =
  saveItem_def deleteItem_def getAll_def openDB_def os_put_def os_delete_def os_getAll_def
  os_clear_def os_put_all_def saveEarnings_def getEarnings_def

lemma dec_string_digit: "n < 10 \<Longrightarrow> dec_string n = [digit_char n]"
  by (simp add: dec_string.simps)

lemma dec_string_step:
  "10 \<le> n \<Longrightarrow> dec_string n = dec_string (n div 10) @ [digit_char (n mod 10)]"
  by (subst dec_string.simps) simp

lemma dec_string_17: "dec_string 17 = ''17''"
  by (simp add: dec_string_digit dec_string_step digit_char_def)

lemma shop1_eval:
  "shop1 = shop0\<lparr>products := [widget], idb := empty_db\<lparr>db_products := [widget]\<rparr>\<rparr>"
  by (simp add: shop1_def handleAddProduct_def shop0_def empty_db_def store_ops)

lemmas shop1_unfold = shop1_eval shop0_def widget_def sell_widget_def empty_db_def empty_ls_def

lemma dec_string_18: "dec_string 18 = ''18''"
  by (simp add: dec_string_digit dec_string_step digit_char_def)

lemmas sale_eval =
  handleSale_def make_saleRecord_def dec_string_17 dec_string_18 store_ops js_arith Let_def

section \<open>Sales: what is guarded\<close>

text \<open>
  Claim C1, as the code has it.  A call of \<open>handleSale\<close> for a product id that no
  product in memory carries changes nothing: no sale record, the earnings, the products
  and both stores as before.  The quantity is not examined: \<open>handleSale\<close> has no guard
  on \<open>quantityToSell\<close>.
\<close>

theorem handleSale_unknown_product_noop:
  "sc_productId c \<notin> p_id ` set (products a) \<Longrightarrow> handleSale c a = a"
proof -
  assume "sc_productId c \<notin> p_id ` set (products a)"
  then have "find (\<lambda>p. p_id p = sc_productId c) (products a) = None"
    by (force simp: find_None_iff)
  then show ?thesis
    by (simp add: handleSale_def)
qed

theorem handleSale_unknown_product_noop_witness:
  "''p2'' \<notin> p_id ` set (products shop1) \<and>
   handleSale ((sell_widget (Num 2) (Num 100) 17)\<lparr>sc_productId := ''p2''\<rparr>) shop1 = shop1"
  using handleSale_unknown_product_noop
    [of "(sell_widget (Num 2) (Num 100) 17)\<lparr>sc_productId := ''p2''\<rparr>" shop1]
  by (simp add: shop1_eval shop0_def widget_def sell_widget_def)

text \<open>
  A sale of \<open>-2\<close> units of the widget is carried out: the record is logged and
  persisted, the earnings go from \<open>0\<close> to \<open>-200\<close> in memory and in localStorage, and
  the stock goes from \<open>5\<close> to \<open>7\<close>.
\<close>

theorem handleSale_nonpositive_quantity_counterexample:
  "js_le (Num (-2)) (Num 0) \<and>
   sales (handleSale (sell_widget (Num (-2)) (Num 100) 17) shop1) =
     [\<lparr>s_id = ''17'', s_productId = ''p1'', s_productName = ''Widget'', s_productImage = [],
       s_quantity = Num (-2), s_soldAtPrice = Num 100, s_timestamp = Num 17\<rparr>] \<and>
   db_sales (idb (handleSale (sell_widget (Num (-2)) (Num 100) 17) shop1)) =
     [\<lparr>s_id = ''17'', s_productId = ''p1'', s_productName = ''Widget'', s_productImage = [],
       s_quantity = Num (-2), s_soldAtPrice = Num 100, s_timestamp = Num 17\<rparr>] \<and>
   totalEarnings shop1 = Num 0 \<and>
   totalEarnings (handleSale (sell_widget (Num (-2)) (Num 100) 17) shop1) = Num (-200) \<and>
   ls_total_earnings (ls (handleSale (sell_widget (Num (-2)) (Num 100) 17) shop1)) = Some (Num (-200)) \<and>
   map p_quantity (products shop1) = [Num 5] \<and>
   map p_quantity (products (handleSale (sell_widget (Num (-2)) (Num 100) 17) shop1)) = [Num 7]"
  by (simp add: shop1_unfold handleSale_def make_saleRecord_def dec_string_17 store_ops
      js_arith Let_def)

section \<open>The error contract of the structured store\<close>

text \<open>
  Claim C8, evaluated on the code.  \<open>getAll\<close> answers a failed open with the empty
  list, but a failure after the open (an exception in the promise executor, the error
  event of the request) rejects the promise it returns.  \<open>saveItem\<close> rejects on the error
  event of the transaction, but a failed open and an exception of \<open>transaction\<close> or
  \<open>put\<close> are logged and the call resolves with the store untouched.  \<open>deleteItem\<close>
  rejects on each of them.
\<close>

theorem store_error_contract_as_coded:
  "getAll OpenFails os = Inr [] \<and>
   getAll CallThrows os = Inl DOMException \<and>
   getAll ErrorEvent os = Inl RequestError \<and>
   saveItem kp OpenFails x os = Inr os \<and>
   saveItem kp CallThrows x os = Inr os \<and>
   saveItem kp ErrorEvent x os = Inl RequestError \<and>
   deleteItem kp OpenFails k os = Inl OpenError \<and>
   deleteItem kp CallThrows k os = Inl DOMException"
  by (simp add: getAll_def saveItem_def deleteItem_def openDB_def)

section \<open>Sales: stock\<close>

lemma overflow_not_Null: "overflow r \<noteq> Null"
  by (simp add: overflow_def)

lemma overflow_not_NaN: "overflow r \<noteq> NaN"
  by (simp add: overflow_def)

lemma ext_add_not_Null: "ext_add x y \<noteq> Null"
  by (cases x; cases y) (simp_all add: overflow_not_Null)

lemma js_add_not_Null: "js_add x y \<noteq> Null"
  by (simp add: js_add_def lift_arith_def ext_add_not_Null split: option.splits)

lemma saveEarnings_js_add:
  "saveEarnings (js_add x y) st =
     Inr (st\<lparr>ls_total_earnings := Some (if isNaN (js_add x y) then Num 0 else js_add x y)\<rparr>)"
  by (cases "js_add x y") (simp_all add: saveEarnings_def isNaN_def js_add_not_Null)











lemma shop1_sold2:
  "handleSale (sell_widget (Num 2) (Num 100) 17) shop1 =
     shop1\<lparr>products := [widget\<lparr>p_quantity := Num 3\<rparr>],
           sales := [\<lparr>s_id = ''17'', s_productId = ''p1'', s_productName = ''Widget'', s_productImage = [],
       s_quantity = Num 2, s_soldAtPrice = Num 100, s_timestamp = Num 17\<rparr>],
           totalEarnings := Num 200,
           idb := \<lparr>db_categories = [], db_products = [widget\<lparr>p_quantity := Num 3\<rparr>],
                   db_sales = [\<lparr>s_id = ''17'', s_productId = ''p1'', s_productName = ''Widget'', s_productImage = [],
       s_quantity = Num 2, s_soldAtPrice = Num 100, s_timestamp = Num 17\<rparr>]\<rparr>,
           ls := empty_ls\<lparr>ls_total_earnings := Some (Num 200)\<rparr>\<rparr>"
  by (simp add: shop1_unfold sale_eval)




section \<open>Sales: earnings\<close>

text \<open>What a sale does to the sales log, the earnings and localStorage.\<close>

lemma handleSale_recorded_raw:
  assumes "find (\<lambda>p. p_id p = sc_productId c) (products a) = Some pr"
    and "sc_fault_sale c \<noteq> ErrorEvent"
  shows "sales (handleSale c a) = make_saleRecord pr c # sales a"
    and "totalEarnings (handleSale c a) =
        js_add (if isNaN (totalEarnings a) then Num 0 else totalEarnings a)
          (js_mul (sc_soldAtPrice c) (sc_quantityToSell c))"
    and "ls (handleSale c a) =
        (ls a)\<lparr>ls_total_earnings :=
          Some (if isNaN (js_add (if isNaN (totalEarnings a) then Num 0 else totalEarnings a)
                           (js_mul (sc_soldAtPrice c) (sc_quantityToSell c)))
                then Num 0
                else js_add (if isNaN (totalEarnings a) then Num 0 else totalEarnings a)
                       (js_mul (sc_soldAtPrice c) (sc_quantityToSell c)))\<rparr>"
  using assms
  by (simp_all add: handleSale_def Let_def saveEarnings_js_add saveItem_def openDB_def
      split: sum.splits)

lemma handleSale_recorded:
  assumes "find (\<lambda>p. p_id p = sc_productId c) (products a) = Some pr"
    and "sc_fault_sale c \<noteq> ErrorEvent"
  shows "sales (handleSale c a) = make_saleRecord pr c # sales a"
    and "totalEarnings (handleSale c a) =
        js_add (if isNaN (totalEarnings a) then Num 0 else totalEarnings a)
          (js_mul (sc_soldAtPrice c) (sc_quantityToSell c))"
    and "ls (handleSale c a) =
        (ls a)\<lparr>ls_total_earnings :=
          Some (if isNaN (totalEarnings (handleSale c a)) then Num 0
                else totalEarnings (handleSale c a))\<rparr>"
  using handleSale_recorded_raw [OF assms] by (simp_all only:)

lemma handleSale_cases:
  "(sales (handleSale c a) = sales a \<and> totalEarnings (handleSale c a) = totalEarnings a \<and>
    ls (handleSale c a) = ls a) \<or>
   (\<exists>pr. find (\<lambda>p. p_id p = sc_productId c) (products a) = Some pr \<and>
      sc_fault_sale c \<noteq> ErrorEvent)"
proof (cases "find (\<lambda>p. p_id p = sc_productId c) (products a)")
  case None
  then have "handleSale c a = a" by (simp add: handleSale_def)
  then show ?thesis by simp
next
  case (Some pr)
  show ?thesis
  proof (cases "sc_fault_sale c = ErrorEvent")
    case True
    with Some have "handleSale c a = a"
      by (simp add: handleSale_def saveItem_def openDB_def)
    then show ?thesis by simp
  next
    case False
    with Some show ?thesis by simp
  qed
qed

lemma totalEarnings_handleSale_not_Null:
  "totalEarnings a \<noteq> Null \<Longrightarrow> totalEarnings (handleSale c a) \<noteq> Null"
  using handleSale_cases [of c a]
  by (auto simp: handleSale_recorded(2) js_add_not_Null)

















section \<open>Sales: the id of a sale record\<close>

lemma filter_insort_key_only:
  "\<forall>y \<in> set xs. kp y \<noteq> kp x \<Longrightarrow> filter (\<lambda>y. kp y = kp x) (insort_key kp x xs) = [x]"
  by (induction xs) auto

lemma filter_key_os_put: "filter (\<lambda>y. kp y = kp x) (os_put kp x os) = [x]"
  by (simp add: os_put_def filter_insort_key_only)

lemma set_os_put: "set (os_put kp x os) = insert x {y \<in> set os. kp y \<noteq> kp x}"
  by (auto simp: os_put_def set_insort_key)

lemma db_sales_handleSale:
  assumes "find (\<lambda>p. p_id p = sc_productId c) (products a) = Some pr"
    and "sc_fault_sale c = NoFault"
  shows "db_sales (idb (handleSale c a)) = os_put s_id (make_saleRecord pr c) (db_sales (idb a))"
  using assms
  by (simp add: handleSale_def Let_def saveEarnings_js_add saveItem_def deleteItem_def openDB_def
      split: sum.splits)

text \<open>
  Claim C10.  The id of the sale record that \<open>handleSale\<close> creates is the decimal
  string of \<open>Date.now()\<close>.  Two sales that read the same value of \<open>Date.now()\<close> get
  the same id: both records are in the log in memory, and the sales store, keyed by id,
  holds the second one only.
\<close>

theorem sale_id_is_timestamp:
  "(find (\<lambda>p. p_id p = sc_productId c) (products a) = Some pr \<and> sc_fault_sale c \<noteq> ErrorEvent \<longrightarrow>
      sales (handleSale c a) = make_saleRecord pr c # sales a \<and>
      s_id (make_saleRecord pr c) = dec_string (sc_now_id c)) \<and>
   (find (\<lambda>p. p_id p = sc_productId c1) (products a) = Some pr1 \<and>
    find (\<lambda>p. p_id p = sc_productId c2) (products (handleSale c1 a)) = Some pr2 \<and>
    sc_fault_sale c1 = NoFault \<and> sc_fault_sale c2 = NoFault \<and>
    sc_now_id c1 = sc_now_id c2 \<longrightarrow>
      sales (handleSale c2 (handleSale c1 a)) =
        make_saleRecord pr2 c2 # make_saleRecord pr1 c1 # sales a \<and>
      s_id (make_saleRecord pr1 c1) = s_id (make_saleRecord pr2 c2) \<and>
      filter (\<lambda>s. s_id s = dec_string (sc_now_id c1)) (db_sales (idb (handleSale c2 (handleSale c1 a)))) =
        [make_saleRecord pr2 c2])"
proof (intro conjI impI)
  assume "find (\<lambda>p. p_id p = sc_productId c) (products a) = Some pr \<and> sc_fault_sale c \<noteq> ErrorEvent"
  then show "sales (handleSale c a) = make_saleRecord pr c # sales a"
    by (simp add: handleSale_recorded(1))
next
  show "s_id (make_saleRecord pr c) = dec_string (sc_now_id c)"
    by (simp add: make_saleRecord_def)
next
  assume h: "find (\<lambda>p. p_id p = sc_productId c1) (products a) = Some pr1 \<and>
    find (\<lambda>p. p_id p = sc_productId c2) (products (handleSale c1 a)) = Some pr2 \<and>
    sc_fault_sale c1 = NoFault \<and> sc_fault_sale c2 = NoFault \<and>
    sc_now_id c1 = sc_now_id c2"
  then have s1: "sales (handleSale c1 a) = make_saleRecord pr1 c1 # sales a"
    by (simp add: handleSale_recorded(1))
  from h have "sales (handleSale c2 (handleSale c1 a)) = make_saleRecord pr2 c2 # sales (handleSale c1 a)"
    by (simp add: handleSale_recorded(1))
  with s1 show "sales (handleSale c2 (handleSale c1 a)) =
        make_saleRecord pr2 c2 # make_saleRecord pr1 c1 # sales a"
    by simp
  from h show "s_id (make_saleRecord pr1 c1) = s_id (make_saleRecord pr2 c2)"
    by (simp add: make_saleRecord_def)
  from h have "db_sales (idb (handleSale c2 (handleSale c1 a))) =
      os_put s_id (make_saleRecord pr2 c2) (db_sales (idb (handleSale c1 a)))"
    by (simp add: db_sales_handleSale)
  moreover from h have "dec_string (sc_now_id c1) = s_id (make_saleRecord pr2 c2)"
    by (simp add: make_saleRecord_def)
  ultimately show "filter (\<lambda>s. s_id s = dec_string (sc_now_id c1)) (db_sales (idb (handleSale c2 (handleSale c1 a)))) =
        [make_saleRecord pr2 c2]"
    by (simp only: filter_key_os_put)
qed

theorem sale_id_is_timestamp_witness:
  "find (\<lambda>p. p_id p = ''p1'') (products shop1) = Some widget \<and>
   find (\<lambda>p. p_id p = ''p1'') (products (handleSale (sell_widget (Num 2) (Num 100) 17) shop1)) = Some (widget\<lparr>p_quantity := Num 3\<rparr>) \<and>
   map s_id (sales (handleSale (sell_widget (Num 1) (Num 90) 17) (handleSale (sell_widget (Num 2) (Num 100) 17) shop1))) = [''17'', ''17''] \<and>
   map s_quantity (sales (handleSale (sell_widget (Num 1) (Num 90) 17) (handleSale (sell_widget (Num 2) (Num 100) 17) shop1))) = [Num 1, Num 2] \<and>
   map s_quantity (db_sales (idb (handleSale (sell_widget (Num 1) (Num 90) 17) (handleSale (sell_widget (Num 2) (Num 100) 17) shop1)))) = [Num 1]"
  using sale_id_is_timestamp [where c = "sell_widget (Num 2) (Num 100) 17" and a = shop1
      and pr = widget and ?c1.0 = "sell_widget (Num 2) (Num 100) 17" and ?pr1.0 = widget
      and ?c2.0 = "sell_widget (Num 1) (Num 90) 17" and ?pr2.0 = "widget\<lparr>p_quantity := Num 3\<rparr>"]
  by (simp add: shop1_unfold sale_eval)

section \<open>Object stores\<close>

lemma os_wf_iff: "os_wf kp os = (sorted (map kp os) \<and> distinct (map kp os))"
  by (simp add: os_wf_def strict_sorted_iff)

lemma distinct_keys_insort_key:
  "distinct (map kp (insort_key kp x xs)) = (kp x \<notin> kp ` set xs \<and> distinct (map kp xs))"
  by (induction xs) (auto simp: set_insort_key)

lemma os_wf_os_put: "os_wf kp os \<Longrightarrow> os_wf kp (os_put kp x os)"
  by (auto simp: os_wf_iff os_put_def sorted_insort_key distinct_keys_insort_key
      sorted_filter distinct_map_filter)

lemma os_wf_os_put_all: "os_wf kp os \<Longrightarrow> os_wf kp (os_put_all kp xs os)"
  unfolding os_put_all_def
  by (induction xs arbitrary: os) (simp_all add: os_wf_os_put)

lemma set_os_put_all:
  "distinct (map kp xs) \<Longrightarrow>
   set (os_put_all kp xs os) = set xs \<union> {y \<in> set os. kp y \<notin> kp ` set xs}"
  unfolding os_put_all_def
proof (induction xs arbitrary: os)
  case Nil
  then show ?case by simp
next
  case (Cons x xs)
  then show ?case by (auto simp: set_os_put)
qed

lemma os_wf_unique:
  assumes "os_wf kp xs" and "os_wf kp ys" and "set xs = set ys"
  shows "xs = ys"
proof -
  from assms have "map kp xs = map kp ys"
    by (intro sorted_distinct_set_unique) (simp_all add: os_wf_iff)
  moreover from assms have "inj_on kp (set xs \<union> set ys)"
    by (simp add: os_wf_iff distinct_map)
  ultimately show ?thesis
    by (rule map_inj_on)
qed

lemma os_put_all_agrees:
  assumes "store_agrees kp mem os"
  shows "os_put_all kp mem [] = os"
proof -
  from assms have "os_wf kp os" "distinct (map kp mem)" "set os = set mem"
    by (simp_all add: store_agrees_def)
  moreover have "os_wf kp (os_put_all kp mem [])"
    by (rule os_wf_os_put_all) (simp add: os_wf_def)
  moreover from \<open>distinct (map kp mem)\<close> have "set (os_put_all kp mem []) = set mem"
    by (simp add: set_os_put_all)
  ultimately show ?thesis
    by (intro os_wf_unique [of kp]) simp_all
qed

section \<open>Sorting\<close>

lemma set_insert_cmp: "set (insert_cmp cmp x ys) = insert x (set ys)"
  by (induction ys) auto

lemma set_sort_cmp: "set (sort_cmp cmp xs) = set xs"
  unfolding sort_cmp_def by (induction xs) (simp_all add: set_insert_cmp)

lemma length_insert_cmp: "length (insert_cmp cmp x ys) = Suc (length ys)"
  by (induction ys) auto

lemma length_sort_cmp: "length (sort_cmp cmp xs) = length xs"
  unfolding sort_cmp_def by (induction xs) (simp_all add: length_insert_cmp)

lemma distinct_keys_insert_cmp:
  "distinct (map f (insert_cmp cmp x ys)) = (f x \<notin> f ` set ys \<and> distinct (map f ys))"
  by (induction ys) (auto simp: set_insert_cmp)

lemma distinct_keys_sort_cmp: "distinct (map f (sort_cmp cmp xs)) = distinct (map f xs)"
  unfolding sort_cmp_def
proof (induction xs)
  case Nil
  then show ?case by simp
next
  case (Cons x xs)
  have "set (foldr (insert_cmp cmp) xs []) = set xs"
    using set_sort_cmp [of cmp xs] by (simp add: sort_cmp_def)
  with Cons show ?case by (simp add: distinct_keys_insert_cmp)
qed

section \<open>Restoring a bundle\<close>

lemma saveEarnings_not_Null:
  "v \<noteq> Null \<Longrightarrow>
   saveEarnings v st = Inr (st\<lparr>ls_total_earnings := Some (if isNaN v then Num 0 else v)\<rparr>)"
  by (cases v) (simp_all add: saveEarnings_def isNaN_def)

lemma overwriteLocalData_healthy:
  "v \<noteq> Null \<Longrightarrow>
   overwriteLocalData OwNoFault cats prods v sls (db, st) =
     (Fulfilled, replace_stores cats prods sls db,
      st\<lparr>ls_total_earnings := Some (if isNaN v then Num 0 else v)\<rparr>)"
  by (simp add: overwriteLocalData_def saveEarnings_not_Null)

lemma loadData_healthy:
  "loadData NoFault NoFault NoFault a =
     a\<lparr>categories := db_categories (idb a),
       products := db_products (idb a),
       sales := sort_cmp by_timestamp_desc (db_sales (idb a)),
       totalEarnings := js_or (getEarnings (ls a)) (Num 0)\<rparr>"
  by (simp add: loadData_def getAll_def openDB_def os_getAll_def)

lemma js_or_getEarnings_stored:
  "v \<noteq> Null \<Longrightarrow>
   js_or (getEarnings (st\<lparr>ls_total_earnings := Some (if isNaN v then Num 0 else v)\<rparr>)) (Num 0) =
     (if isNaN v then Num 0 else v)"
  by (cases v) (simp_all add: getEarnings_def isNaN_def js_or_def)

lemma set_replace:
  "distinct (map kp xs) \<Longrightarrow> set (os_put_all kp xs (os_clear os)) = set xs"
  by (simp add: set_os_put_all os_clear_def)

lemma wf_replace: "os_wf kp (os_put_all kp xs (os_clear os))"
  by (rule os_wf_os_put_all) (simp add: os_wf_def os_clear_def)

lemma distinct_replace: "distinct (map kp (os_put_all kp xs (os_clear os)))"
  using wf_replace [of kp xs os] by (simp add: os_wf_iff)

lemma length_replace:
  assumes "distinct (map kp xs)"
  shows "length (os_put_all kp xs (os_clear os)) = length xs"
proof -
  have "distinct (os_put_all kp xs (os_clear os))"
    using distinct_replace [of kp xs os] by (simp add: distinct_map)
  moreover from assms have "distinct xs" by (simp add: distinct_map)
  moreover from assms have "set (os_put_all kp xs (os_clear os)) = set xs" by (rule set_replace)
  ultimately show ?thesis by (metis distinct_card)
qed

lemmas restore_eval =
  overwriteLocalData_def loadData_def replace_stores_def store_ops sort_cmp_def js_arith Let_def

text \<open>
  Claim C5, as the code has it.  For a bundle whose categories, products and sales each
  carry pairwise distinct ids and whose earnings are not \<open>null\<close>,
  \<open>overwriteLocalData\<close> on a healthy store is fulfilled, and \<open>loadData\<close> after it
  yields in memory the records of the bundle, collection by collection (the same set of
  records, as many of them), and the earnings of the bundle, \<open>0\<close> standing for \<open>NaN\<close>.
\<close>

theorem restore_then_load:
  "distinct (map cat_id cats) \<and> distinct (map p_id prods) \<and> distinct (map s_id sls) \<and>
   earnings \<noteq> Null \<longrightarrow>
     (case overwriteLocalData OwNoFault cats prods earnings sls (idb a, ls a) of
        (r, db', ls') \<Rightarrow>
          r = Fulfilled \<and>
          (let a' = loadData NoFault NoFault NoFault (a\<lparr>idb := db', ls := ls'\<rparr>) in
             set (categories a') = set cats \<and> length (categories a') = length cats \<and>
             set (products a') = set prods \<and> length (products a') = length prods \<and>
             set (sales a') = set sls \<and> length (sales a') = length sls \<and>
             totalEarnings a' = (if isNaN earnings then Num 0 else earnings)))"
  by (simp add: overwriteLocalData_healthy loadData_healthy replace_stores_def set_replace
      length_replace set_sort_cmp length_sort_cmp js_or_getEarnings_stored Let_def)

theorem restore_then_load_witness:
  "distinct (map cat_id [cat_a]) \<and> distinct (map p_id [widget]) \<and>
   fst (overwriteLocalData OwNoFault [cat_a] [widget] (Num 200) [] (idb shop0, ls shop0)) = Fulfilled \<and>
   categories (loadData NoFault NoFault NoFault
      (shop0\<lparr>idb := fst (snd (overwriteLocalData OwNoFault [cat_a] [widget] (Num 200) [] (idb shop0, ls shop0))),
             ls := snd (snd (overwriteLocalData OwNoFault [cat_a] [widget] (Num 200) [] (idb shop0, ls shop0)))\<rparr>)) = [cat_a] \<and>
   totalEarnings (loadData NoFault NoFault NoFault
      (shop0\<lparr>idb := fst (snd (overwriteLocalData OwNoFault [cat_a] [widget] (Num 200) [] (idb shop0, ls shop0))),
             ls := snd (snd (overwriteLocalData OwNoFault [cat_a] [widget] (Num 200) [] (idb shop0, ls shop0)))\<rparr>)) = Num 200"
  using restore_then_load [of "[cat_a]" "[widget]" "[]" "Num 200" shop0]
  by (simp add: restore_eval shop0_def empty_db_def empty_ls_def cat_a_def widget_def)

lemma shop1_sold_twice:
  "run_sales [sell_widget (Num 2) (Num 100) 17, sell_widget (Num 1) (Num 90) 17] shop1 =
     shop1\<lparr>products := [widget\<lparr>p_quantity := Num 2\<rparr>],
           sales := [\<lparr>s_id = ''17'', s_productId = ''p1'', s_productName = ''Widget'', s_productImage = [],
                      s_quantity = Num 1, s_soldAtPrice = Num 90, s_timestamp = Num 17\<rparr>,
                     \<lparr>s_id = ''17'', s_productId = ''p1'', s_productName = ''Widget'', s_productImage = [],
                      s_quantity = Num 2, s_soldAtPrice = Num 100, s_timestamp = Num 17\<rparr>],
           totalEarnings := Num 290,
           idb := \<lparr>db_categories = [], db_products = [widget\<lparr>p_quantity := Num 2\<rparr>],
                   db_sales = [\<lparr>s_id = ''17'', s_productId = ''p1'', s_productName = ''Widget'', s_productImage = [],
                      s_quantity = Num 1, s_soldAtPrice = Num 90, s_timestamp = Num 17\<rparr>]\<rparr>,
           ls := empty_ls\<lparr>ls_total_earnings := Some (Num 290)\<rparr>\<rparr>"
  by (simp add: shop1_unfold sale_eval)

text \<open>
  Two sales in one millisecond are both in memory, under one id.  A bundle with this
  sales log is written to the store one record after the other, the second replacing the
  first, and \<open>loadData\<close> reads one sale where the bundle has two.
\<close>

theorem restore_of_twins_counterexample:
  "map s_id (sales (run_sales [sell_widget (Num 2) (Num 100) 17, sell_widget (Num 1) (Num 90) 17] shop1)) =
     [''17'', ''17''] \<and>
   fst (overwriteLocalData OwNoFault [] [widget\<lparr>p_quantity := Num 2\<rparr>] (Num 290)
          (sales (run_sales [sell_widget (Num 2) (Num 100) 17, sell_widget (Num 1) (Num 90) 17] shop1))
          (idb shop0, ls shop0)) = Fulfilled \<and>
   map s_quantity (sales (loadData NoFault NoFault NoFault
      (shop0\<lparr>idb := fst (snd (overwriteLocalData OwNoFault [] [widget\<lparr>p_quantity := Num 2\<rparr>] (Num 290)
          (sales (run_sales [sell_widget (Num 2) (Num 100) 17, sell_widget (Num 1) (Num 90) 17] shop1))
          (idb shop0, ls shop0))),
             ls := snd (snd (overwriteLocalData OwNoFault [] [widget\<lparr>p_quantity := Num 2\<rparr>] (Num 290)
          (sales (run_sales [sell_widget (Num 2) (Num 100) 17, sell_widget (Num 1) (Num 90) 17] shop1))
          (idb shop0, ls shop0)))\<rparr>))) = [Num 2] \<and>
   map s_quantity (sales (run_sales [sell_widget (Num 2) (Num 100) 17, sell_widget (Num 1) (Num 90) 17] shop1)) =
     [Num 1, Num 2]"
  unfolding shop1_sold_twice
  by (simp add: restore_eval by_timestamp_desc_def shop1_unfold)

text \<open>
  Claim C4, evaluated on the code.  \<open>handleImport\<close> sets the state variables from
  the bundle and does not call \<open>loadData\<close>: after the import of two categories with
  one id, memory holds both, the store holds the second, and a reload would read the
  second only.
\<close>

theorem handleImport_keeps_bundle_in_memory:
  "categories (handleImport True OwNoFault twin_import shop0) = [cat_a, cat_b] \<and>
   db_categories (idb (handleImport True OwNoFault twin_import shop0)) = [cat_b] \<and>
   categories (loadData NoFault NoFault NoFault (handleImport True OwNoFault twin_import shop0)) = [cat_b] \<and>
   [cat_a, cat_b] \<noteq> [cat_b]"
  by (simp add: handleImport_def twin_import_def or_list_def or_num_def restore_eval shop0_def
      empty_db_def empty_ls_def cat_a_def cat_b_def)

text \<open>\<open>handleLogin\<close>, for comparison, reads memory back from the store.\<close>

lemma js_or_zero_not_Null: "js_or v (Num 0) \<noteq> Null"
  by (cases v) (simp_all add: js_or_def)

lemma handleLogin_reads_back:
  assumes "fetchFromCloud (u_email newUser) (ls a) = Some cloudData"
  shows "categories (handleLogin newUser True OwNoFault NoFault NoFault NoFault a) =
           os_getAll (db_categories (idb (handleLogin newUser True OwNoFault NoFault NoFault NoFault a)))"
    and "products (handleLogin newUser True OwNoFault NoFault NoFault NoFault a) =
           os_getAll (db_products (idb (handleLogin newUser True OwNoFault NoFault NoFault NoFault a)))"
    and "set (sales (handleLogin newUser True OwNoFault NoFault NoFault NoFault a)) =
           set (os_getAll (db_sales (idb (handleLogin newUser True OwNoFault NoFault NoFault NoFault a))))"
  using assms
  by (simp_all add: handleLogin_def Let_def overwriteLocalData_healthy js_or_zero_not_Null
      loadData_healthy set_sort_cmp os_getAll_def)

section \<open>Resetting the earnings\<close>

lemma resetEarnings_healthy:
  "resetEarnings True OwNoFault a =
     a\<lparr>totalEarnings := Num 0, sales := [],
       idb := replace_stores (categories a) (products a) [] (idb a),
       ls := (ls a)\<lparr>ls_total_earnings := Some (Num 0)\<rparr>\<rparr>"
  by (simp add: resetEarnings_def Let_def overwriteLocalData_healthy saveEarnings_not_Null)

text \<open>
  Claim C7, as the code has it.  A confirmed \<open>resetEarnings\<close> on a healthy store
  sets the earnings to \<open>0\<close> in memory and in localStorage, empties the sales log in
  memory and in the store, and leaves the categories and products in memory as they
  are.  The categories and products stores are cleared and filled again from memory:
  they are as before when they held the in-memory collections before.
\<close>

theorem resetEarnings_effect:
  "totalEarnings (resetEarnings True OwNoFault a) = Num 0 \<and>
   sales (resetEarnings True OwNoFault a) = [] \<and>
   getEarnings (ls (resetEarnings True OwNoFault a)) = Num 0 \<and>
   db_sales (idb (resetEarnings True OwNoFault a)) = [] \<and>
   categories (resetEarnings True OwNoFault a) = categories a \<and>
   products (resetEarnings True OwNoFault a) = products a \<and>
   db_categories (idb (resetEarnings True OwNoFault a)) = os_put_all cat_id (categories a) [] \<and>
   db_products (idb (resetEarnings True OwNoFault a)) = os_put_all p_id (products a) [] \<and>
   (store_agrees cat_id (categories a) (db_categories (idb a)) \<longrightarrow>
      db_categories (idb (resetEarnings True OwNoFault a)) = db_categories (idb a)) \<and>
   (store_agrees p_id (products a) (db_products (idb a)) \<longrightarrow>
      db_products (idb (resetEarnings True OwNoFault a)) = db_products (idb a))"
  by (simp add: resetEarnings_healthy replace_stores_def os_clear_def os_put_all_agrees
      getEarnings_def isNaN_def)
    (simp add: os_put_all_def)

theorem resetEarnings_effect_witness:
  "store_agrees cat_id (categories (handleSale (sell_widget (Num 2) (Num 100) 17) shop1))
      (db_categories (idb (handleSale (sell_widget (Num 2) (Num 100) 17) shop1))) \<and>
   store_agrees p_id (products (handleSale (sell_widget (Num 2) (Num 100) 17) shop1))
      (db_products (idb (handleSale (sell_widget (Num 2) (Num 100) 17) shop1))) \<and>
   totalEarnings (handleSale (sell_widget (Num 2) (Num 100) 17) shop1) = Num 200 \<and>
   totalEarnings (resetEarnings True OwNoFault (handleSale (sell_widget (Num 2) (Num 100) 17) shop1)) = Num 0 \<and>
   sales (resetEarnings True OwNoFault (handleSale (sell_widget (Num 2) (Num 100) 17) shop1)) = [] \<and>
   db_sales (idb (resetEarnings True OwNoFault (handleSale (sell_widget (Num 2) (Num 100) 17) shop1))) = [] \<and>
   db_products (idb (resetEarnings True OwNoFault (handleSale (sell_widget (Num 2) (Num 100) 17) shop1))) =
     [widget\<lparr>p_quantity := Num 3\<rparr>] \<and>
   products (resetEarnings True OwNoFault (handleSale (sell_widget (Num 2) (Num 100) 17) shop1)) =
     [widget\<lparr>p_quantity := Num 3\<rparr>]"
  using resetEarnings_effect [of "handleSale (sell_widget (Num 2) (Num 100) 17) shop1"]
  unfolding shop1_sold2
  by (simp add: shop1_unfold store_agrees_def os_wf_def resetEarnings_healthy replace_stores_def
      store_ops)

text \<open>
  A product whose \<open>saveItem\<close> met a failed open is in memory and not in the store:
  \<open>resetEarnings\<close> then writes it to the store.  A product that is in the store and
  not in memory is removed from the store.
\<close>

theorem resetEarnings_rewrites_store_counterexample:
  "products (handleAddProduct OpenFails widget shop0) = [widget] \<and>
   db_products (idb (handleAddProduct OpenFails widget shop0)) = [] \<and>
   products (resetEarnings True OwNoFault (handleAddProduct OpenFails widget shop0)) = [widget] \<and>
   db_products (idb (resetEarnings True OwNoFault (handleAddProduct OpenFails widget shop0))) = [widget] \<and>
   products shop0 = [] \<and>
   db_products (idb (resetEarnings True OwNoFault (shop0\<lparr>idb := empty_db\<lparr>db_products := [widget]\<rparr>\<rparr>))) = []"
  by (simp add: resetEarnings_healthy replace_stores_def handleAddProduct_def shop0_def empty_db_def
      empty_ls_def widget_def store_ops)

section \<open>Snapshots\<close>













section \<open>The value of the inventory\<close>






















end
